theory Spec2Isabelle
  imports Complex_Main "HOL-Library.Sublist"
begin

section \<open>Strings as Python sees them\<close>

text \<open>
  Texts are lists of characters, read as ASCII. \<open>is_space\<close> is \<^verbatim>\<open>str.isspace\<close> on
  one ASCII character (tab, line feed, vertical tab, form feed, carriage return, the four
  separators 0x1C to 0x1F and the blank), which is also the class \<^verbatim>\<open>\s\<close> of a
  \<^verbatim>\<open>re\<close> pattern over \<^verbatim>\<open>str\<close>.
\<close>

definition is_space :: "char \<Rightarrow> bool" where
  "is_space c = (let n = of_char c :: nat in (9 \<le> n \<and> n \<le> 13) \<or> (28 \<le> n \<and> n \<le> 32))"

definition strip :: "string \<Rightarrow> string" where
  "strip s = rev (dropWhile is_space (rev (dropWhile is_space s)))"

definition lower_char :: "char \<Rightarrow> char" where
  "lower_char c = (let n = of_char c :: nat in if 65 \<le> n \<and> n \<le> 90 then char_of (n + 32) else c)"

definition lower :: "string \<Rightarrow> string" where
  "lower s = map lower_char s"

section \<open>The in-memory cache (\<^verbatim>\<open>_Cache\<close> of \<^verbatim>\<open>ai_service.py\<close>)\<close>

text \<open>
  \<^verbatim>\<open>_store\<close> is a Python dict from key to \<^verbatim>\<open>(value, timestamp)\<close>. A dict iterates in
  insertion order and \<^verbatim>\<open>min\<close> returns the first minimal key, so the store is an
  association list in insertion order with unique keys. Timestamps are the readings of
  \<^verbatim>\<open>time.time()\<close>, passed in as rationals.
\<close>

datatype py_error = ZeroDivisionError | ValueError | IndexError

record 'v Cache =
  store :: "(string \<times> ('v \<times> rat)) list"
  max_size :: int
  ttl :: rat

definition Cache_init :: "int \<Rightarrow> rat \<Rightarrow> 'v Cache" where
  "Cache_init m t = \<lparr>store = [], max_size = m, ttl = t\<rparr>"

fun store_del :: "string \<Rightarrow> (string \<times> 'a) list \<Rightarrow> (string \<times> 'a) list" where
  "store_del k [] = []"
| "store_del k (p # ps) = (if fst p = k then ps else p # store_del k ps)"

fun store_put :: "string \<Rightarrow> 'a \<Rightarrow> (string \<times> 'a) list \<Rightarrow> (string \<times> 'a) list" where
  "store_put k v [] = [(k, v)]"
| "store_put k v (p # ps) = (if fst p = k then (k, v) # ps else p # store_put k v ps)"

text \<open>\<^verbatim>\<open>min(self._store, key=lambda k: self._store[k][1])\<close>: the first key of least timestamp.\<close>

fun oldest_from :: "string \<times> ('v \<times> rat) \<Rightarrow> (string \<times> ('v \<times> rat)) list \<Rightarrow> string" where
  "oldest_from b [] = fst b"
| "oldest_from b (p # ps) = (if snd (snd p) < snd (snd b) then oldest_from p ps else oldest_from b ps)"

definition oldest_key :: "(string \<times> ('v \<times> rat)) list \<Rightarrow> py_error + string" where
  "oldest_key st = (case st of [] \<Rightarrow> Inl ValueError | p # ps \<Rightarrow> Inr (oldest_from p ps))"

text \<open>
  \<^verbatim>\<open>get\<close>: a stored entry is a non-empty tuple, hence truthy; a fresh one is returned, an
  expired one is deleted. The result is the value found and the cache afterwards.
\<close>

definition Cache_get :: "rat \<Rightarrow> string \<Rightarrow> 'v Cache \<Rightarrow> 'v option \<times> 'v Cache" where
  "Cache_get now k c =
     (case map_of (store c) k of
        None \<Rightarrow> (None, c)
      | Some (val, ts) \<Rightarrow>
          if now - ts < ttl c then (Some val, c)
          else (None, c\<lparr>store := store_del k (store c)\<rparr>))"

text \<open>\<^verbatim>\<open>set\<close>: when the store is full the oldest entry goes first, whatever the key.\<close>

definition Cache_set :: "rat \<Rightarrow> string \<Rightarrow> 'v \<Rightarrow> 'v Cache \<Rightarrow> py_error + 'v Cache" where
  "Cache_set now k v c =
     (if int (length (store c)) \<ge> max_size c then
        (case oldest_key (store c) of
           Inl e \<Rightarrow> Inl e
         | Inr oldest \<Rightarrow>
             Inr (c\<lparr>store := store_put k (v, now) (store_del oldest (store c))\<rparr>))
      else Inr (c\<lparr>store := store_put k (v, now) (store c)\<rparr>))"

section \<open>Partial results and their merge (\<^verbatim>\<open>GeminiAIService._merge\<close>)\<close>

text \<open>
  A partial result is the JSON object parsed from one chunk's response, with the keys the
  prompt asks for. A field is \<open>None\<close> when its key is missing; for the text and list
  fields \<open>None\<close> stands for JSON \<^verbatim>\<open>null\<close> as well, which the code treats alike
  (\<^verbatim>\<open>r.get(k) or []\<close>, \<^verbatim>\<open>if v and isinstance(v, str)\<close>). The confidence score is a
  number when present; floats are read as exact rationals.
\<close>

record patient_info =
  age :: "string option"
  gender :: "string option"

record partial_result =
  patient_info :: "patient_info option"
  symptoms :: "string list option"
  medications :: "string list option"
  procedures :: "string list option"
  lab_values :: "string list option"
  body_parts :: "string list option"
  clinical_impression :: "string option"
  risk_flags :: "string list option"
  specialty_classification :: "string option"
  professional_summary :: "string option"
  patient_friendly_summary :: "string option"
  confidence_score :: "rat option"

text \<open>\<^verbatim>\<open>x or []\<close> on a list field.\<close>

definition or_empty :: "'a list option \<Rightarrow> 'a list" where
  "or_empty v = (case v of None \<Rightarrow> [] | Some xs \<Rightarrow> xs)"

text \<open>
  The inner \<^verbatim>\<open>dedup\<close>: the key of an entry is \<^verbatim>\<open>str(x).lower().strip()\<close>; \<open>seen\<close> holds
  the keys met so far.
\<close>

definition dedup_key :: "string \<Rightarrow> string" where
  "dedup_key x = strip (lower x)"

fun dedup_from :: "string list \<Rightarrow> string list \<Rightarrow> string list" where
  "dedup_from seen [] = []"
| "dedup_from seen (x # xs) =
     (let k = dedup_key x
      in if k \<in> set seen then dedup_from seen xs else x # dedup_from (k # seen) xs)"

definition dedup :: "string list \<Rightarrow> string list" where
  "dedup lst = dedup_from [] lst"

text \<open>
  The inner \<^verbatim>\<open>best\<close>: the candidates are the non-empty strings; \<^verbatim>\<open>max(c, key=len)\<close>
  returns the first of the longest ones.
\<close>

fun longest_from :: "string \<Rightarrow> string list \<Rightarrow> string" where
  "longest_from b [] = b"
| "longest_from b (v # vs) = (if length b < length v then longest_from v vs else longest_from b vs)"

definition best :: "string option list \<Rightarrow> string option" where
  "best vals =
     (case [v. Some v \<leftarrow> vals, v \<noteq> []] of [] \<Rightarrow> None | c # cs \<Rightarrow> Some (longest_from c cs))"

text \<open>
  \<^verbatim>\<open>round(x, ndigits)\<close>, read on exact rationals: the nearest multiple of
  \<open>10\<^sup>-\<^sup>n\<close>, a tie going to the even one.
\<close>

definition round_half_even :: "rat \<Rightarrow> int" where
  "round_half_even x =
     (let f = \<lfloor>x\<rfloor>; d = x - of_int f
      in if d < 1 / 2 then f else if 1 / 2 < d then f + 1 else if even f then f else f + 1)"

definition py_round :: "rat \<Rightarrow> nat \<Rightarrow> rat" where
  "py_round x n = of_int (round_half_even (x * 10 ^ n)) / 10 ^ n"

text \<open>\<^verbatim>\<open>r.get("confidence_score", 0.5)\<close> and \<^verbatim>\<open>r.get("patient_info", {}).get(k)\<close>.\<close>

definition score_or_half :: "partial_result \<Rightarrow> rat" where
  "score_or_half r = (case confidence_score r of None \<Rightarrow> 1 / 2 | Some s \<Rightarrow> s)"

definition info_get :: "(patient_info \<Rightarrow> string option) \<Rightarrow> partial_result \<Rightarrow> string option" where
  "info_get f r = (case patient_info r of None \<Rightarrow> None | Some p \<Rightarrow> f p)"

text \<open>\<^verbatim>\<open>dedup(sum([r.get(field) or [] for r in results], []))\<close> for one list field.\<close>

definition merge_list :: "(partial_result \<Rightarrow> string list option) \<Rightarrow> partial_result list \<Rightarrow> string list" where
  "merge_list f results = dedup (concat (map (\<lambda>r. or_empty (f r)) results))"

text \<open>
  \<^verbatim>\<open>_merge\<close>. One result is returned as it is. Otherwise the dictionary is built field
  by field; its last entry divides by \<^verbatim>\<open>len(results)\<close>, which raises on the empty list.
\<close>

definition GeminiAIService_merge :: "partial_result list \<Rightarrow> py_error + partial_result" where
  "GeminiAIService_merge results =
     (if length results = 1 then Inr (hd results)
      else if length results = 0 then Inl ZeroDivisionError
      else Inr \<lparr>
        patient_info = Some \<lparr>age = best (map (info_get age) results),
                             gender = best (map (info_get gender) results)\<rparr>,
        symptoms = Some (merge_list symptoms results),
        medications = Some (merge_list medications results),
        procedures = Some (merge_list procedures results),
        lab_values = Some (merge_list lab_values results),
        body_parts = Some (merge_list body_parts results),
        clinical_impression = best (map clinical_impression results),
        risk_flags = Some (merge_list risk_flags results),
        specialty_classification = best (map specialty_classification results),
        professional_summary = best (map professional_summary results),
        patient_friendly_summary = best (map patient_friendly_summary results),
        confidence_score =
          Some (py_round (sum_list (map score_or_half results) / of_nat (length results)) 2)\<rparr>)"

section \<open>Chunking (\<^verbatim>\<open>GeminiAIService._chunk_text\<close>)\<close>

definition is_terminator :: "char \<Rightarrow> bool" where
  "is_terminator c = (c = CHR ''.'' \<or> c = CHR ''!'' \<or> c = CHR ''?'')"

text \<open>
  \<^verbatim>\<open>re.split(r'(?<=[.!?])\s+', text)\<close>. A separator is a maximal run of whitespace that
  directly follows a terminator. The scan carries whether the character before was a
  terminator, whether it is inside a separator, and the piece read so far (reversed).
  The last piece is returned even when empty, as \<^verbatim>\<open>re.split\<close> does.
\<close>

fun split_scan :: "bool \<Rightarrow> bool \<Rightarrow> string \<Rightarrow> string \<Rightarrow> string list" where
  "split_scan after_term in_sep acc [] = [rev acc]"
| "split_scan after_term in_sep acc (c # cs) =
     (if in_sep \<and> is_space c then split_scan False True acc cs
      else if after_term \<and> is_space c then rev acc # split_scan False True [] cs
      else split_scan (is_terminator c) False (c # acc) cs)"

definition re_split_sentences :: "string \<Rightarrow> string list" where
  "re_split_sentences text = split_scan False False [] text"

text \<open>
  The loop over the sentences, with \<open>current\<close> as its state; the chunks appended so far
  are the prefix of the result.
\<close>

fun chunk_loop :: "int \<Rightarrow> string \<Rightarrow> string list \<Rightarrow> string list" where
  "chunk_loop max_chars current [] = (if current \<noteq> [] then [strip current] else [])"
| "chunk_loop max_chars current (s # ss) =
     (if int (length current) + int (length s) + 1 > max_chars \<and> current \<noteq> []
      then strip current # chunk_loop max_chars s ss
      else chunk_loop max_chars (if current \<noteq> [] then strip (current @ '' '' @ s) else s) ss)"

definition GeminiAIService_chunk_text :: "string \<Rightarrow> int \<Rightarrow> string list" where
  "GeminiAIService_chunk_text text max_chars =
     (if int (length text) \<le> max_chars then [text]
      else chunk_loop max_chars [] (re_split_sentences text))"

text \<open>\<^verbatim>\<open>str.split()\<close>: the maximal runs of non-whitespace characters.\<close>

fun words_scan :: "string \<Rightarrow> string \<Rightarrow> string list" where
  "words_scan acc [] = (if acc = [] then [] else [rev acc])"
| "words_scan acc (c # cs) =
     (if is_space c then (if acc = [] then words_scan [] cs else rev acc # words_scan [] cs)
      else words_scan (c # acc) cs)"

definition py_split :: "string \<Rightarrow> string list" where
  "py_split s = words_scan [] s"

text \<open>
  \<^verbatim>\<open>re.sub(r'\s+', ' ', text.strip())\<close>, the whitespace normalisation at the head of
  \<^verbatim>\<open>chunk_text\<close> in \<^verbatim>\<open>text_chunker.py\<close>: every run of whitespace becomes one blank.
\<close>

fun collapse_scan :: "bool \<Rightarrow> string \<Rightarrow> string" where
  "collapse_scan in_run [] = []"
| "collapse_scan in_run (c # cs) =
     (if is_space c then (if in_run then collapse_scan True cs else CHR '' '' # collapse_scan True cs)
      else c # collapse_scan False cs)"

definition normalize_whitespace :: "string \<Rightarrow> string" where
  "normalize_whitespace text = collapse_scan False (strip text)"

section \<open>Text normalisation on upload (\<^verbatim>\<open>normalize_text\<close> of \<^verbatim>\<open>file_handler.py\<close>)\<close>

definition is_control :: "char \<Rightarrow> bool" where
  "is_control c =
     (let n = of_char c :: nat
      in n \<le> 8 \<or> n = 11 \<or> n = 12 \<or> (14 \<le> n \<and> n \<le> 31) \<or> n = 127)"

text \<open>\<^verbatim>\<open>text.replace('\r\n', '\n').replace('\r', '\n')\<close>.\<close>

fun replace_crlf :: "string \<Rightarrow> string" where
  "replace_crlf [] = []"
| "replace_crlf [c] = [c]"
| "replace_crlf (c # d # cs) =
     (if c = CHR 0x0D \<and> d = CHR 0x0A then CHR 0x0A # replace_crlf cs
      else c # replace_crlf (d # cs))"

definition replace_cr :: "string \<Rightarrow> string" where
  "replace_cr s = map (\<lambda>c. if c = CHR 0x0D then CHR 0x0A else c) s"

text \<open>\<^verbatim>\<open>re.sub(r'\n{3,}', '\n\n', text)\<close>; \<open>n\<close> counts the line feeds of the run being read.\<close>

fun squeeze_newlines :: "nat \<Rightarrow> string \<Rightarrow> string" where
  "squeeze_newlines n [] = replicate (if 3 \<le> n then 2 else n) (CHR 0x0A)"
| "squeeze_newlines n (c # cs) =
     (if c = CHR 0x0A then squeeze_newlines (Suc n) cs
      else replicate (if 3 \<le> n then 2 else n) (CHR 0x0A) @ c # squeeze_newlines 0 cs)"

text \<open>\<^verbatim>\<open>re.sub(r'[ \t]{2,}', ' ', text)\<close>; \<open>run\<close> is the run of blanks and tabs being read.\<close>

fun squeeze_blanks :: "string \<Rightarrow> string \<Rightarrow> string" where
  "squeeze_blanks run [] = (if 2 \<le> length run then '' '' else run)"
| "squeeze_blanks run (c # cs) =
     (if c = CHR '' '' \<or> c = CHR 0x09 then squeeze_blanks (run @ [c]) cs
      else (if 2 \<le> length run then '' '' else run) @ c # squeeze_blanks [] cs)"

definition normalize_text :: "string \<Rightarrow> string" where
  "normalize_text text =
     strip (squeeze_blanks [] (squeeze_newlines 0 (replace_cr (replace_crlf
       (filter (\<lambda>c. \<not> is_control c) text)))))"

section \<open>The pipeline (\<^verbatim>\<open>_call_gemini\<close>, \<^verbatim>\<open>analyze_text\<close>)\<close>

text \<open>
  One attempt on a chunk ends in a timeout, in another exception, in a response that
  \<^verbatim>\<open>_extract_json\<close> cannot parse (it returns \<^verbatim>\<open>None\<close>), or in a parsed value. A parsed
  value is either falsy (the empty object) or a non-empty object, a partial result.
\<close>

datatype parsed = Falsy | Dict partial_result

datatype attempt = Timeout | TransportError | Unparseable | Parsed parsed

text \<open>
  \<^verbatim>\<open>for attempt in range(2)\<close>: the first parsed value is returned; after the last attempt
  the result is \<^verbatim>\<open>None\<close>. The generation service is a function from the attempt number
  to what that attempt ends in.
\<close>

fun attempts :: "(nat \<Rightarrow> attempt) \<Rightarrow> nat list \<Rightarrow> parsed option" where
  "attempts g [] = None"
| "attempts g (a # as) = (case g a of Parsed p \<Rightarrow> Some p | _ \<Rightarrow> attempts g as)"

definition call_gemini :: "(nat \<Rightarrow> attempt) \<Rightarrow> parsed option" where
  "call_gemini g = attempts g [0, 1]"

text \<open>
  The loop over the chunks: chunk \<open>i\<close> is sent to the service, \<^verbatim>\<open>if r:\<close> keeps the truthy
  results in \<open>results\<close> and the numbers (from 1) of the others in \<open>failed\<close>.
\<close>

fun process_chunks :: "(nat \<Rightarrow> nat \<Rightarrow> attempt) \<Rightarrow> nat list \<Rightarrow> partial_result list \<times> nat list" where
  "process_chunks gemini [] = ([], [])"
| "process_chunks gemini (i # is) =
     (let (results, failed) = process_chunks gemini is
      in case call_gemini (gemini i) of
           Some (Dict r) \<Rightarrow> (r # results, failed)
         | _ \<Rightarrow> (results, (i + 1) # failed))"

datatype status = success | failed

record analysis =
  result :: partial_result
  status :: status
  error :: "string option"
  cached :: bool

definition failed_analysis :: analysis where
  "failed_analysis =
     \<lparr>result = \<lparr>patient_info = Some \<lparr>age = None, gender = None\<rparr>,
        symptoms = Some [], medications = Some [], procedures = Some [],
        lab_values = Some [], body_parts = Some [], clinical_impression = None,
        risk_flags = Some [], specialty_classification = None,
        professional_summary = None, patient_friendly_summary = None,
        confidence_score = Some 0\<rparr>,
      status = failed,
      error = Some ''AI analysis failed. Please try again later.'',
      cached = False\<rparr>"

text \<open>
  \<^verbatim>\<open>make_key\<close>: the SHA-256 digest of the text as it is given. The digest function of
  \<^verbatim>\<open>hashlib\<close> is a parameter.
\<close>

definition Cache_make_key :: "(string \<Rightarrow> string) \<Rightarrow> string \<Rightarrow> string" where
  "Cache_make_key sha256 text = sha256 text"

text \<open>
  \<^verbatim>\<open>analyze_text\<close>, on the module's cache. \<open>t_get\<close> and \<open>t_set\<close> are the clock readings
  inside \<^verbatim>\<open>_cache.get\<close> and \<^verbatim>\<open>_cache.set\<close>. The result is what the call returns or the
  exception it raises, and the cache afterwards. A cached value is a dictionary with the
  three keys that \<^verbatim>\<open>update\<close> wrote, hence truthy.
\<close>

definition analyze_text ::
  "(string \<Rightarrow> string) \<Rightarrow> (nat \<Rightarrow> nat \<Rightarrow> attempt) \<Rightarrow> rat \<Rightarrow> rat \<Rightarrow> string \<Rightarrow> analysis Cache
     \<Rightarrow> (py_error + analysis) \<times> analysis Cache" where
  "analyze_text sha256 gemini t_get t_set text cache =
     (let key = Cache_make_key sha256 text;
          (hit, cache1) = Cache_get t_get key cache
      in case hit of
           Some c \<Rightarrow> (Inr (c\<lparr>cached := True\<rparr>), cache1)
         | None \<Rightarrow>
             (let chunks = GeminiAIService_chunk_text text 6000;
                  (results, failed) = process_chunks gemini [0 ..< length chunks]
              in if results = [] then (Inr failed_analysis, cache1)
                 else
                   (case GeminiAIService_merge results of
                      Inl e \<Rightarrow> (Inl e, cache1)
                    | Inr m \<Rightarrow>
                        (let merged = \<lparr>result = m, status = success, error = None, cached = False\<rparr>
                         in case Cache_set t_set key merged cache1 of
                              Inl e \<Rightarrow> (Inl e, cache1)
                            | Inr cache2 \<Rightarrow> (Inr merged, cache2)))))"

section \<open>Admission control (\<^verbatim>\<open>RateLimitMiddleware.dispatch\<close>)\<close>

text \<open>
  \<^verbatim>\<open>_windows\<close> is a \<^verbatim>\<open>defaultdict(deque)\<close>: every client has a window, empty at first.
  Clock readings are rationals; \<^verbatim>\<open>int\<close> truncates towards zero.
\<close>

record RateLimitMiddleware =
  max_requests :: int
  window_seconds :: int
  windows :: "string \<Rightarrow> rat list"

datatype decision = PassThrough | Accepted | Rejected int

definition py_int :: "rat \<Rightarrow> int" where
  "py_int x = (if 0 \<le> x then \<lfloor>x\<rfloor> else \<lceil>x\<rceil>)"

definition prune :: "rat \<Rightarrow> int \<Rightarrow> rat list \<Rightarrow> rat list" where
  "prune now ws window = dropWhile (\<lambda>t. t < now - of_int ws) window"

definition dispatch ::
  "string \<Rightarrow> string \<Rightarrow> rat \<Rightarrow> RateLimitMiddleware \<Rightarrow> (py_error + decision) \<times> RateLimitMiddleware" where
  "dispatch path client_ip now m =
     (if \<not> prefix ''/api/v1/reports'' path then (Inr PassThrough, m)
      else
        (let window = prune now (window_seconds m) (windows m client_ip);
             m1 = m\<lparr>windows := (windows m)(client_ip := window)\<rparr>
         in if int (length window) \<ge> max_requests m then
              (case window of
                 [] \<Rightarrow> (Inl IndexError, m1)
               | t0 # _ \<Rightarrow>
                   (Inr (Rejected (py_int (t0 + of_int (window_seconds m) - now + 1))), m1))
            else (Inr Accepted, m1\<lparr>windows := (windows m1)(client_ip := window @ [now])\<rparr>)))"

text \<open>A run of checks of one client on one limited path, at the given clock readings.\<close>

fun dispatch_all ::
  "string \<Rightarrow> string \<Rightarrow> rat list \<Rightarrow> RateLimitMiddleware \<Rightarrow> (py_error + decision) list \<times> RateLimitMiddleware" where
  "dispatch_all path ip [] m = ([], m)"
| "dispatch_all path ip (now # nows) m =
     (let (d, m1) = dispatch path ip now m; (ds, m2) = dispatch_all path ip nows m1
      in (d # ds, m2))"

section \<open>Reference notions used to state the properties\<close>


text \<open>
  Removal of duplicates with respect to a key, as the specification words it: every entry
  stays at the place where its key is first seen, in its original spelling, and the later
  entries of the same key go.
\<close>

fun first_seen_by :: "('a \<Rightarrow> 'k) \<Rightarrow> 'a list \<Rightarrow> 'a list" where
  "first_seen_by key [] = []"
| "first_seen_by key (x # xs) = x # first_seen_by key (filter (\<lambda>y. key y \<noteq> key x) xs)"


text \<open>The arithmetic mean of the confidence scores that are present.\<close>

definition present_scores :: "partial_result list \<Rightarrow> rat list" where
  "present_scores rs = concat (map (\<lambda>r. case confidence_score r of None \<Rightarrow> [] | Some s \<Rightarrow> [s]) rs)"


text \<open>The partial results of the chunks whose call succeeded, in chunk order.\<close>

definition successful_results :: "(nat \<Rightarrow> nat \<Rightarrow> attempt) \<Rightarrow> nat \<Rightarrow> partial_result list" where
  "successful_results gemini n =
     concat (map (\<lambda>i. case call_gemini (gemini i) of Some (Dict r) \<Rightarrow> [r] | _ \<Rightarrow> []) [0 ..< n])"

text \<open>The number of chunks \<^verbatim>\<open>analyze_text\<close> cuts a document into (budget 6000).\<close>

definition document_chunks :: "string \<Rightarrow> nat" where
  "document_chunks text = length (GeminiAIService_chunk_text text 6000)"

section \<open>Properties of the cache\<close>

lemma store_del_length_le: "length (store_del k st) \<le> length st"
  by (induction st) auto

lemma store_del_length_mem: "k \<in> fst ` set st \<Longrightarrow> Suc (length (store_del k st)) = length st"
  by (induction st) auto

lemma store_put_length_le: "length (store_put k v st) \<le> Suc (length st)"
  by (induction st) auto

lemma store_put_length_mem: "k \<in> fst ` set st \<Longrightarrow> length (store_put k v st) = length st"
  by (induction st) auto

lemma oldest_from_mem: "oldest_from b ps \<in> fst ` set (b # ps)"
  by (induction b ps rule: oldest_from.induct) auto


lemma set_store_put_subset: "set (store_put k v st) \<subseteq> insert (k, v) (set st)"
  by (induction st) auto


lemma Cache_set_bound:
  assumes "1 \<le> max_size c" and "int (length (store c)) \<le> max_size c"
    and "Cache_set now k v c = Inr c'"
  shows "int (length (store c')) \<le> max_size c'" and "max_size c' = max_size c"
proof -
  have both: "int (length (store c')) \<le> max_size c \<and> max_size c' = max_size c"
  proof (cases "max_size c \<le> int (length (store c))")
    case True
    then obtain p ps where st: "store c = p # ps"
      using assms(1) by (cases "store c") auto
    have "oldest_from p ps \<in> fst ` set (store c)"
      using oldest_from_mem [of p ps] st by simp
    then have "Suc (length (store_del (oldest_from p ps) (store c))) = length (store c)"
      by (rule store_del_length_mem)
    moreover have "length (store_put k (v, now) (store_del (oldest_from p ps) (store c)))
        \<le> Suc (length (store_del (oldest_from p ps) (store c)))"
      by (rule store_put_length_le)
    ultimately show ?thesis
      using assms True st by (auto simp: Cache_set_def oldest_key_def)
  next
    case False
    then show ?thesis
      using assms store_put_length_le [of k "(v, now)" "store c"] by (auto simp: Cache_set_def)
  qed
  from both show "int (length (store c')) \<le> max_size c'" by simp
  from both show "max_size c' = max_size c" by simp
qed

lemma Cache_get_store:
  "store (snd (Cache_get now k c)) = store c \<or>
   store (snd (Cache_get now k c)) = store_del k (store c)"
  by (auto simp: Cache_get_def split: option.splits)

lemma Cache_get_bound:
  "length (store (snd (Cache_get now k c))) \<le> length (store c)"
  using Cache_get_store [of now k c] store_del_length_le [of k "store c"] by auto


text \<open>
  C7. The store stays within \<open>max_size\<close> (lemmas \<open>Cache_set_bound\<close> and
  \<open>Cache_get_bound\<close>), but \<^verbatim>\<open>set\<close> tests only \<^verbatim>\<open>len(self._store) >= self._max\<close>, not
  whether the key is already stored. In a cache of size two that holds \<open>a\<close> and \<open>b\<close>,
  writing \<open>b\<close> again evicts \<open>a\<close>, the entry with the oldest timestamp, although an
  overwrite cannot exceed the bound: one entry is left where the claim says two.
\<close>

theorem Cache_set_overwrite_evicts:
  "Cache_set 1 ''a'' (10::nat) (Cache_init 2 3600)
     = Inr \<lparr>store = [(''a'', (10, 1))], max_size = 2, ttl = 3600\<rparr> \<and>
   Cache_set 2 ''b'' (20::nat) \<lparr>store = [(''a'', (10, 1))], max_size = 2, ttl = 3600\<rparr>
     = Inr \<lparr>store = [(''a'', (10, 1)), (''b'', (20, 2))], max_size = 2, ttl = 3600\<rparr> \<and>
   Cache_set 3 ''b'' (30::nat) \<lparr>store = [(''a'', (10, 1)), (''b'', (20, 2))], max_size = 2, ttl = 3600\<rparr>
     = Inr \<lparr>store = [(''b'', (30, 3))], max_size = 2, ttl = 3600\<rparr>"
  by (simp add: Cache_set_def Cache_init_def oldest_key_def)

section \<open>Properties of the merge\<close>



lemma first_seen_by_subseq: "subseq (first_seen_by key xs) xs"
proof (induction key xs rule: first_seen_by.induct)
  case (1 key)
  show ?case by simp
next
  case (2 key x xs)
  have "subseq (filter (\<lambda>y. key y \<noteq> key x) xs) xs" by simp
  with 2 have "subseq (first_seen_by key (filter (\<lambda>y. key y \<noteq> key x) xs)) xs"
    using subseq_order.trans by blast
  then show ?case by simp
qed

lemma first_seen_by_keys: "key ` set (first_seen_by key xs) = key ` set xs"
proof (induction key xs rule: first_seen_by.induct)
  case (1 key)
  show ?case by simp
next
  case (2 key x xs)
  then show ?case by auto
qed

lemma first_seen_by_distinct: "distinct (map key (first_seen_by key xs))"
proof (induction key xs rule: first_seen_by.induct)
  case (1 key)
  show ?case by simp
next
  case (2 key x xs)
  have "key x \<notin> key ` set (first_seen_by key (filter (\<lambda>y. key y \<noteq> key x) xs))"
    by (auto simp: first_seen_by_keys)
  with 2 show ?case by simp
qed

lemma first_seen_by_first:
  "y \<in> set (first_seen_by key xs) \<Longrightarrow> find (\<lambda>z. key z = key y) xs = Some y"
proof (induction key xs rule: first_seen_by.induct)
  case (1 key)
  then show ?case by simp
next
  case (2 key x xs)
  show ?case
  proof (cases "y = x")
    case True
    then show ?thesis by simp
  next
    case False
    with 2 have mem: "y \<in> set (first_seen_by key (filter (\<lambda>y. key y \<noteq> key x) xs))" by simp
    then have "key y \<in> key ` set (filter (\<lambda>y. key y \<noteq> key x) xs)"
      using first_seen_by_keys [of key "filter (\<lambda>y. key y \<noteq> key x) xs"] by blast
    then have ne: "key x \<noteq> key y" by auto
    have "find (\<lambda>z. key z = key y) (filter (\<lambda>y. key y \<noteq> key x) xs) = Some y"
      using 2 mem by simp
    moreover have "find (\<lambda>z. key z = key y) (filter (\<lambda>y. key y \<noteq> key x) xs)
        = find (\<lambda>z. key z = key y) xs"
      using ne by (induction xs) auto
    ultimately show ?thesis using ne by simp
  qed
qed





lemma length_present_scores_le: "length (present_scores rs) \<le> length rs"
  by (induction rs) (auto simp: present_scores_def split: option.splits)







section \<open>Properties of the pipeline\<close>

text \<open>
  The loop over the chunks collects exactly the successful partial results, in chunk
  order; a chunk none of whose two attempts parses yields none.
\<close>

lemma process_chunks_results:
  "fst (process_chunks gemini is) =
     concat (map (\<lambda>i. case call_gemini (gemini i) of Some (Dict r) \<Rightarrow> [r] | _ \<Rightarrow> []) is)"
  by (induction "is") (auto split: prod.splits option.splits parsed.splits)

lemma process_chunks_successful:
  "fst (process_chunks gemini [0 ..< n]) = successful_results gemini n"
  by (simp add: process_chunks_results successful_results_def)




lemma analyze_text_no_results:
  assumes "Cache_get t_get (Cache_make_key sha256 text) cache = (None, cache1)"
    and "successful_results gemini (document_chunks text) = []"
  shows "analyze_text sha256 gemini t_get t_set text cache = (Inr failed_analysis, cache1)"
proof -
  obtain rs fl where p: "process_chunks gemini [0 ..< document_chunks text] = (rs, fl)"
    by (cases "process_chunks gemini [0 ..< document_chunks text]")
  have "rs = []"
    using process_chunks_successful [of gemini "document_chunks text"] p assms(2)
    by simp
  then show ?thesis using assms(1) p by (simp add: analyze_text_def document_chunks_def)
qed




text \<open>
  C3 (as amended). With no partial result, \<^verbatim>\<open>analyze_text\<close> builds the failed result
  itself, before \<^verbatim>\<open>_merge\<close> is reached: it returns status \<open>failed\<close>, confidence 0,
  empty lists, no text fields and an empty patient record.
\<close>

theorem analyze_text_zero_results:
  assumes "fst (Cache_get t_get (Cache_make_key sha256 text) cache) = None"
    and "successful_results gemini (document_chunks text) = []"
  shows "\<exists>a. fst (analyze_text sha256 gemini t_get t_set text cache) = Inr a \<and>
           status a = failed \<and> cached a = False \<and>
           confidence_score (result a) = Some 0 \<and>
           patient_info (result a) = Some \<lparr>age = None, gender = None\<rparr> \<and>
           symptoms (result a) = Some [] \<and> medications (result a) = Some [] \<and>
           procedures (result a) = Some [] \<and> lab_values (result a) = Some [] \<and>
           body_parts (result a) = Some [] \<and> risk_flags (result a) = Some [] \<and>
           clinical_impression (result a) = None \<and> specialty_classification (result a) = None \<and>
           professional_summary (result a) = None \<and> patient_friendly_summary (result a) = None"
proof -
  obtain cache1 where g: "Cache_get t_get (Cache_make_key sha256 text) cache = (None, cache1)"
    using assms(1) by (cases "Cache_get t_get (Cache_make_key sha256 text) cache") auto
  have "analyze_text sha256 gemini t_get t_set text cache = (Inr failed_analysis, cache1)"
    using analyze_text_no_results [OF g assms(2)] .
  then show ?thesis by (simp add: failed_analysis_def)
qed

theorem analyze_text_zero_results_witness:
  "fst (Cache_get 5 (Cache_make_key (\<lambda>t. t) ''report'') (Cache_init 100 3600 :: analysis Cache)) = None \<and>
   successful_results (\<lambda>i a. Unparseable) (document_chunks ''report'') = [] \<and>
   (\<exists>a. fst (analyze_text (\<lambda>t. t) (\<lambda>i a. Unparseable) 5 6 ''report'' (Cache_init 100 3600)) = Inr a \<and>
        status a = failed \<and> confidence_score (result a) = Some 0 \<and> symptoms (result a) = Some [])"
proof -
  let ?c = "Cache_init 100 3600 :: analysis Cache"
  have miss: "fst (Cache_get 5 (Cache_make_key (\<lambda>t. t) ''report'') ?c) = None"
    by (simp add: Cache_get_def Cache_init_def)
  have n: "document_chunks ''report'' = 1"
    by (simp add: document_chunks_def GeminiAIService_chunk_text_def)
  have rs: "successful_results (\<lambda>i a. Unparseable) (document_chunks ''report'') = []"
    by (simp add: n successful_results_def call_gemini_def)
  show ?thesis
    using analyze_text_zero_results [OF miss rs, of 6] miss rs by blast
qed

text \<open>
  C3 as stated fails: applied to the empty list, \<^verbatim>\<open>_merge\<close> divides by
  \<^verbatim>\<open>len(results)\<close> and raises.
\<close>

theorem merge_empty_raises: "GeminiAIService_merge [] = Inl ZeroDivisionError"
  by (simp add: GeminiAIService_merge_def)




section \<open>Properties of the admission control\<close>

lemma prune_none:
  assumes "\<forall>t \<in> set w. now - of_int ws \<le> t"
  shows "prune now ws w = w"
  using assms by (cases w) (auto simp: prune_def)

lemma dispatch_accept:
  assumes "prefix ''/api/v1/reports'' path"
    and "\<forall>t \<in> set (windows m ip). now - of_int (window_seconds m) \<le> t"
    and "int (length (windows m ip)) < max_requests m"
  shows "dispatch path ip now m = (Inr Accepted, m\<lparr>windows := (windows m)(ip := windows m ip @ [now])\<rparr>)"
  using assms prune_none [OF assms(2)] by (simp add: dispatch_def Let_def)

lemma dispatch_reject:
  assumes "prefix ''/api/v1/reports'' path"
    and "\<forall>t \<in> set (windows m ip). now - of_int (window_seconds m) \<le> t"
    and "windows m ip = t0 # w"
    and "max_requests m \<le> int (length (windows m ip))"
  shows "dispatch path ip now m =
     (Inr (Rejected (py_int (t0 + of_int (window_seconds m) - now + 1))), m)"
proof -
  have "(windows m)(ip := t0 # w) = windows m"
    using assms(3) by auto
  then show ?thesis
    using assms prune_none [OF assms(2)] by (simp add: dispatch_def Let_def)
qed

lemma dispatch_pass_through:
  "\<not> prefix ''/api/v1/reports'' path \<Longrightarrow> dispatch path ip now m = (Inr PassThrough, m)"
  by (simp add: dispatch_def)

text \<open>
  C9 (as amended). With \<open>max_requests = 5\<close> and \<open>window_seconds = 60\<close>, for a client
  whose window is empty, six checks on a limited path at clock readings that do not
  decrease and lie within 60 seconds of the first: the first five are accepted, the sixth
  is rejected, and its \<^verbatim>\<open>retry_after_seconds\<close> is the integer part of
  \<open>oldest + window_seconds - now + 1\<close> (\<^verbatim>\<open>int(...)\<close>), at least 1.
\<close>

theorem dispatch_five_then_reject:
  assumes mr: "max_requests m = 5" and ws: "window_seconds m = 60"
    and empty: "windows m ip = []"
    and path: "prefix ''/api/v1/reports'' path"
    and order: "t1 \<le> t2" "t2 \<le> t3" "t3 \<le> t4" "t4 \<le> t5" "t5 \<le> t6"
    and rapid: "t6 - 60 \<le> t1"
  shows "fst (dispatch_all path ip [t1, t2, t3, t4, t5, t6] m) =
           [Inr Accepted, Inr Accepted, Inr Accepted, Inr Accepted, Inr Accepted,
            Inr (Rejected (py_int (t1 + 60 - t6 + 1)))] \<and>
         py_int (t1 + 60 - t6 + 1) = \<lfloor>t1 + 60 - t6 + 1\<rfloor> \<and>
         1 \<le> py_int (t1 + 60 - t6 + 1)"
proof -
  define m1 where "m1 = m\<lparr>windows := (windows m)(ip := [t1])\<rparr>"
  define m2 where "m2 = m1\<lparr>windows := (windows m1)(ip := [t1, t2])\<rparr>"
  define m3 where "m3 = m2\<lparr>windows := (windows m2)(ip := [t1, t2, t3])\<rparr>"
  define m4 where "m4 = m3\<lparr>windows := (windows m3)(ip := [t1, t2, t3, t4])\<rparr>"
  define m5 where "m5 = m4\<lparr>windows := (windows m4)(ip := [t1, t2, t3, t4, t5])\<rparr>"
  have d1: "dispatch path ip t1 m = (Inr Accepted, m1)"
    using dispatch_accept [of path m ip t1] path empty mr by (simp add: m1_def)
  have w1: "windows m1 ip = [t1]" "max_requests m1 = 5" "window_seconds m1 = 60"
    using mr ws by (simp_all add: m1_def)
  have d2: "dispatch path ip t2 m1 = (Inr Accepted, m2)"
    using dispatch_accept [of path m1 ip t2] path w1 order rapid by (simp add: m2_def)
  have w2: "windows m2 ip = [t1, t2]" "max_requests m2 = 5" "window_seconds m2 = 60"
    using w1 by (simp_all add: m2_def)
  have d3: "dispatch path ip t3 m2 = (Inr Accepted, m3)"
    using dispatch_accept [of path m2 ip t3] path w2 order rapid by (simp add: m3_def)
  have w3: "windows m3 ip = [t1, t2, t3]" "max_requests m3 = 5" "window_seconds m3 = 60"
    using w2 by (simp_all add: m3_def)
  have d4: "dispatch path ip t4 m3 = (Inr Accepted, m4)"
    using dispatch_accept [of path m3 ip t4] path w3 order rapid by (simp add: m4_def)
  have w4: "windows m4 ip = [t1, t2, t3, t4]" "max_requests m4 = 5" "window_seconds m4 = 60"
    using w3 by (simp_all add: m4_def)
  have d5: "dispatch path ip t5 m4 = (Inr Accepted, m5)"
    using dispatch_accept [of path m4 ip t5] path w4 order rapid by (simp add: m5_def)
  have w5: "windows m5 ip = [t1, t2, t3, t4, t5]" "max_requests m5 = 5" "window_seconds m5 = 60"
    using w4 by (simp_all add: m5_def)
  have d6: "dispatch path ip t6 m5 = (Inr (Rejected (py_int (t1 + 60 - t6 + 1))), m5)"
    using dispatch_reject [of path m5 ip t6 t1 "[t2, t3, t4, t5]"] path w5 order rapid by simp
  have run: "fst (dispatch_all path ip [t1, t2, t3, t4, t5, t6] m) =
           [Inr Accepted, Inr Accepted, Inr Accepted, Inr Accepted, Inr Accepted,
            Inr (Rejected (py_int (t1 + 60 - t6 + 1)))]"
    by (simp add: d1 d2 d3 d4 d5 d6)
  have pos: "1 \<le> t1 + 60 - t6 + 1" using rapid by simp
  then have fl: "py_int (t1 + 60 - t6 + 1) = \<lfloor>t1 + 60 - t6 + 1\<rfloor>" by (simp add: py_int_def)
  have "1 \<le> \<lfloor>t1 + 60 - t6 + 1\<rfloor>" using pos by (metis le_floor_iff of_int_1)
  with run fl show ?thesis by simp
qed

theorem dispatch_five_then_reject_witness:
  "max_requests \<lparr>max_requests = 5, window_seconds = 60, windows = (\<lambda>_. [])\<rparr> = 5 \<and>
   prefix ''/api/v1/reports'' ''/api/v1/reports/upload'' \<and>
   (59::rat) - 60 \<le> 0 \<and>
   fst (dispatch_all ''/api/v1/reports/upload'' ''10.0.0.1'' [0, 1, 2, 3, 4, 59]
          \<lparr>max_requests = 5, window_seconds = 60, windows = (\<lambda>_. [])\<rparr>) =
     [Inr Accepted, Inr Accepted, Inr Accepted, Inr Accepted, Inr Accepted, Inr (Rejected 2)]"
proof -
  let ?m = "\<lparr>max_requests = 5, window_seconds = 60, windows = (\<lambda>_. [])\<rparr>"
  have p: "prefix ''/api/v1/reports'' ''/api/v1/reports/upload''" by simp
  have v: "py_int (0 + 60 - 59 + 1) = 2" by (simp add: py_int_def)
  show ?thesis
    using dispatch_five_then_reject [of ?m "''10.0.0.1''" "''/api/v1/reports/upload''" 0 1 2 3 4 59] p v
    by simp
qed

text \<open>
  C9 as stated fails on fractional clock readings: five checks at time 0 and a sixth at
  0.5 give \<^verbatim>\<open>retry_after_seconds\<close> 60, where \<open>oldest + window_seconds - now + 1\<close> is 60.5.
\<close>

theorem dispatch_retry_after_counterexample:
  "fst (dispatch_all ''/api/v1/reports/upload'' ''10.0.0.1'' [0, 0, 0, 0, 0, 1 / 2]
          \<lparr>max_requests = 5, window_seconds = 60, windows = (\<lambda>_. [])\<rparr>) =
     [Inr Accepted, Inr Accepted, Inr Accepted, Inr Accepted, Inr Accepted, Inr (Rejected 60)] \<and>
   (0 + of_int 60 - 1 / 2 + 1 :: rat) = 121 / 2 \<and> (121 / 2 :: rat) \<noteq> of_int 60"
proof -
  have "fst (dispatch_all ''/api/v1/reports/upload'' ''10.0.0.1'' [0, 0, 0, 0, 0, 1 / 2]
          \<lparr>max_requests = 5, window_seconds = 60, windows = (\<lambda>_. [])\<rparr>) =
     [Inr Accepted, Inr Accepted, Inr Accepted, Inr Accepted, Inr Accepted, Inr (Rejected 60)]"
    by code_simp
  then show ?thesis by simp
qed


end

